theory Spec2Isabelle
  imports Main "HOL-Library.Word"
begin

section \<open>The EVM transaction attempt builder (core/chains/evm/txmgr/attempts.go)\<close>

text \<open>
  The builder turns a pending transaction and a fee quote into a signed attempt. Its
  collaborators (fee configuration, fee estimator, key store) are interfaces in the
  source; here they are records of functions. A call of a collaborator is an effect, and
  every operation returns the list of the calls it made, in order, beside its result.
  The context and the logger arguments of the source carry no data of the result; the
  context is left out, and the one use of the logger (reporting an assumption violation)
  is one of the recorded calls.
\<close>

subsection \<open>Data\<close>

text \<open>
  \<open>*assets.Wei\<close> is a pointer to an arbitrary-precision integer: \<open>Wei option\<close>, with
  \<open>None\<close> for nil. The fee configuration's getters are taken to return a price: the
  source compares against their results without testing them for nil.
\<close>

type_synonym Wei = int
type_synonym Address = "160 word"
type_synonym Hash = "256 word"
type_synonym bytes = "8 word list"
type_synonym uint32 = "32 word"
type_synonym uint64 = "64 word"
type_synonym int64 = "64 word"

text \<open>\<open>gas.EvmFee\<close>: the quote of an estimator, three nullable prices.\<close>

record EvmFee =
  Legacy :: "Wei option"
  DynamicFeeCap :: "Wei option"
  DynamicTipCap :: "Wei option"

text \<open>\<open>gas.DynamicFee\<close>.\<close>

record DynamicFee =
  FeeCap :: "Wei option"
  TipCap :: "Wei option"

text \<open>
  The pending transaction \<open>Tx\<close>, with the fields the builder reads. \<open>Sequence\<close> is a
  pointer to an \<open>int64\<close> nonce.
\<close>

record Tx =
  ID :: int64
  Sequence :: "int64 option"
  FromAddress :: Address
  ToAddress :: Address
  Value :: int
  EncodedPayload :: bytes
  FeeLimit :: uint32

text \<open>
  What the source returns as \<open>error\<close>. Each constructor is one \<open>errors.New\<close>,
  \<open>errors.Errorf\<close> or \<open>errors.Wrap\<close> of the source and carries the values that are
  formatted into its message. \<open>External\<close> is an error made by a collaborator.
\<close>

datatype error =
    External string
  | Wrap error string
  | Wrapf_sign_transaction error Address int64
  | Wrapf_sign_empty_transaction error Address
  | Type0_without_legacy_fee int64
  | Type2_without_dynamic_fee int64
  | Unrecognised_transaction_type int64 int
  | Legacy_fee_cannot_be_nil
  | Impossibly_large_fee_cap
  | Impossibly_large_tip_cap
  | Fee_cap_below_tip_cap Wei Wei
  | Fee_cap_exceeds_max Wei Wei Address
  | Tip_cap_below_min Wei Wei Address
  | Gas_price_exceeds_max Wei Wei Address
  | Gas_price_below_min Wei Wei Address

text \<open>A Go function either panics or returns.\<close>

datatype 'a outcome = Panic string | Return 'a

subsection \<open>Validation\<close>

text \<open>\<open>var Max256BitUInt = big.NewInt(0).Exp(big.NewInt(2), big.NewInt(256), nil)\<close>\<close>

definition Max256BitUInt :: int where
  "Max256BitUInt = 2 ^ 256"

text \<open>
  \<open>validateLegacyGas\<close>. The argument \<open>kse\<close> is the \<open>PriceMaxKey\<close> method of the
  \<open>keySpecificEstimator\<close> it is given.
\<close>

definition validateLegacyGas ::
  "(Address \<Rightarrow> Wei) \<Rightarrow> Wei \<Rightarrow> Wei option \<Rightarrow> uint32 \<Rightarrow> Tx \<Rightarrow> error option outcome" where
  "validateLegacyGas kse minGasPriceWei gasPrice gasLimit etx =
     (case gasPrice of
        None \<Rightarrow> Panic ''gas price missing''
      | Some p \<Rightarrow>
          (let max = kse (FromAddress etx) in
           if p > max then Return (Some (Gas_price_exceeds_max p max (FromAddress etx)))
           else
             (let min = minGasPriceWei in
              if p < min then Return (Some (Gas_price_below_min p min (FromAddress etx)))
              else Return None)))"

text \<open>\<open>validateDynamicFeeGas\<close>.\<close>

definition validateDynamicFeeGas ::
  "(Address \<Rightarrow> Wei) \<Rightarrow> Wei \<Rightarrow> DynamicFee \<Rightarrow> uint32 \<Rightarrow> Tx \<Rightarrow> error option outcome" where
  "validateDynamicFeeGas kse tipCapMinimum fee gasLimit etx =
     (case TipCap fee of
        None \<Rightarrow> Panic ''gas tip cap missing''
      | Some gasTipCap \<Rightarrow>
     (case FeeCap fee of
        None \<Rightarrow> Panic ''gas fee cap missing''
      | Some gasFeeCap \<Rightarrow>
          if gasFeeCap > Max256BitUInt then Return (Some Impossibly_large_fee_cap)
          else if gasTipCap > Max256BitUInt then Return (Some Impossibly_large_tip_cap)
          else if gasFeeCap < gasTipCap then
            Return (Some (Fee_cap_below_tip_cap gasFeeCap gasTipCap))
          else
            (let max = kse (FromAddress etx) in
             if gasFeeCap > max then
               Return (Some (Fee_cap_exceeds_max gasFeeCap max (FromAddress etx)))
             else
               (let minTip = tipCapMinimum in
                if gasTipCap < minTip then
                  Return (Some (Tip_cap_below_min gasTipCap minTip (FromAddress etx)))
                else Return None))))"

subsection \<open>Attempts and transactions\<close>

text \<open>
  Modelled from the spec: the declaration of the attempt state type
  (\<open>txmgrtypes.TxAttemptState\<close>) is not among the sources, which only name its constant
  \<open>TxAttemptInProgress\<close>. The spec's states of an attempt are \<open>InProgress\<close>,
  \<open>Broadcast\<close>, \<open>Confirmed\<close> and \<open>TimedOut\<close>; \<open>TxAttemptState_zero\<close> is the zero value of
  the type, which a Go variable holds before anything is assigned to it and which is none
  of the named states.
\<close>

datatype TxAttemptState =
    TxAttemptState_zero
  | TxAttemptInProgress
  | TxAttemptBroadcast
  | TxAttemptConfirmed
  | TxAttemptTimedOut

text \<open>
  \<open>TxAttempt\<close>, with the fields the builder writes or reads. Its \<open>ID\<close> field is
  \<open>AttemptID\<close> here, since \<open>ID\<close> is the field of \<open>Tx\<close>.
\<close>

record TxAttempt =
  AttemptID :: int64
  TxID :: int64
  Tx :: Tx
  TxFee :: EvmFee
  ChainSpecificFeeLimit :: uint32
  SignedRawTx :: bytes
  Hash :: Hash
  BroadcastBeforeBlockNum :: "int64 option"
  State :: TxAttemptState
  TxType :: int

text \<open>
  \<open>gas.EvmPriorAttempt\<close>. The three fields whose names are fields of \<open>TxAttempt\<close> too
  are prefixed with \<open>Prior\<close>.
\<close>

record EvmPriorAttempt =
  PriorChainSpecificFeeLimit :: uint32
  PriorBroadcastBeforeBlockNum :: "int64 option"
  TxHash :: Hash
  PriorTxType :: int
  GasPrice :: "Wei option"
  DynamicFee :: DynamicFee

text \<open>The zero values of the structs: what a named result holds until it is assigned.\<close>

definition EvmFee_zero :: EvmFee where
  "EvmFee_zero = \<lparr>Legacy = None, DynamicFeeCap = None, DynamicTipCap = None\<rparr>"

definition Tx_zero :: Tx where
  "Tx_zero = \<lparr>ID = 0, Sequence = None, FromAddress = 0, ToAddress = 0, Value = 0,
     EncodedPayload = [], FeeLimit = 0\<rparr>"

definition TxAttempt_zero :: TxAttempt where
  "TxAttempt_zero = \<lparr>AttemptID = 0, TxID = 0, Tx = Tx_zero, TxFee = EvmFee_zero,
     ChainSpecificFeeLimit = 0, SignedRawTx = [], Hash = 0, BroadcastBeforeBlockNum = None,
     State = TxAttemptState_zero, TxType = 0\<rparr>"

text \<open>
  The unsigned transactions of go-ethereum that the builder fills in. The arguments of
  \<open>LegacyTx\<close> are \<open>Nonce\<close>, \<open>To\<close>, \<open>Value\<close>, \<open>Gas\<close>, \<open>GasPrice\<close>, \<open>Data\<close>; those of
  \<open>DynamicFeeTx\<close> are \<open>ChainID\<close>, \<open>Nonce\<close>, \<open>GasTipCap\<close>, \<open>GasFeeCap\<close>, \<open>Gas\<close>, \<open>To\<close>,
  \<open>Value\<close>, \<open>Data\<close>, in the order of the source's struct literals. Pointer fields are
  options.
\<close>

datatype Transaction =
    LegacyTx uint64 "Address option" "int option" uint64 "int option" bytes
  | DynamicFeeTx "int option" uint64 "int option" "int option" uint64 "Address option"
      "int option" bytes

text \<open>
  A signed transaction, as the key store returns it, is used through two methods only:
  \<open>EncodeRLP\<close>, which fails or writes bytes, and \<open>Hash\<close>.
\<close>

record SignedTransaction =
  EncodeRLP :: "error + bytes"
  SignedHash :: Hash

subsection \<open>Collaborators\<close>

text \<open>\<open>evmTxAttemptBuilderFeeConfig\<close>.\<close>

record FeeConfig =
  EIP1559DynamicFees :: bool
  TipCapMin :: Wei
  PriceMin :: Wei
  PriceMaxKey :: "Address \<Rightarrow> Wei"

text \<open>
  \<open>gas.EvmFeeEstimator\<close>, with the two methods the builder calls. Each returns a fee,
  a fee limit and an error, as in Go: the builder passes the first two on even when the
  error is set. \<open>feetypes.Opt\<close> is an integer option code.
\<close>

type_synonym Opt = int

record EvmFeeEstimator =
  GetFee :: "bytes \<Rightarrow> uint32 \<Rightarrow> Wei \<Rightarrow> Opt list \<Rightarrow> EvmFee \<times> uint32 \<times> error option"
  BumpFee :: "EvmFee \<Rightarrow> uint32 \<Rightarrow> Wei \<Rightarrow> EvmPriorAttempt list
                \<Rightarrow> EvmFee \<times> uint32 \<times> error option"

text \<open>
  \<open>evmTxAttemptBuilder\<close>. The key store is its \<open>SignTx\<close> method, from the source
  address, the unsigned transaction and the chain id.
\<close>

record evmTxAttemptBuilder =
  chainID :: int
  feeConfig :: FeeConfig
  keystore :: "Address \<Rightarrow> Transaction \<Rightarrow> int \<Rightarrow> error + SignedTransaction"
  estimator :: EvmFeeEstimator

text \<open>The calls an operation makes on its collaborators.\<close>

datatype call =
    GetFee_call bytes uint32 Wei "Opt list"
  | BumpFee_call EvmFee uint32 Wei "EvmPriorAttempt list"
  | SignTx_call Address Transaction int
  | AssumptionViolation_call error

subsection \<open>Signing\<close>

text \<open>
  \<open>SignTx\<close> of the builder: the key store signs, the signed transaction is encoded and
  hashed. On failure the source returns the zero hash and nil bytes with the error.
\<close>

definition SignTx ::
  "evmTxAttemptBuilder \<Rightarrow> Address \<Rightarrow> Transaction \<Rightarrow> call list \<times> Hash \<times> bytes \<times> error option" where
  "SignTx c address tx =
     (let calls = [SignTx_call address tx (chainID c)] in
      case keystore c address tx (chainID c) of
        Inl err \<Rightarrow> (calls, 0, [], Some (Wrap err ''SignTx failed''))
      | Inr signedTx \<Rightarrow>
          (case EncodeRLP signedTx of
             Inl err \<Rightarrow> (calls, 0, [], Some (Wrap err ''SignTx failed''))
           | Inr rlp \<Rightarrow> (calls, SignedHash signedTx, rlp, None)))"

text \<open>
  \<open>newLegacyTransaction\<close> and \<open>newDynamicFeeTransaction\<close>. \<open>uint64(gasLimit)\<close> widens
  the 32-bit limit; \<open>ToInt\<close> of a price keeps the pointer.
\<close>

definition newLegacyTransaction ::
  "uint64 \<Rightarrow> Address \<Rightarrow> int option \<Rightarrow> uint32 \<Rightarrow> Wei option \<Rightarrow> bytes \<Rightarrow> Transaction" where
  "newLegacyTransaction nonce to val gasLimit gasPrice data =
     LegacyTx nonce (Some to) val (ucast gasLimit) gasPrice data"

definition newDynamicFeeTransaction ::
  "uint64 \<Rightarrow> Address \<Rightarrow> int option \<Rightarrow> uint32 \<Rightarrow> int option \<Rightarrow> Wei option \<Rightarrow> Wei option
     \<Rightarrow> bytes \<Rightarrow> Transaction" where
  "newDynamicFeeTransaction nonce to val gasLimit chain gasTipCap gasFeeCap data =
     DynamicFeeTx chain nonce gasTipCap gasFeeCap (ucast gasLimit) (Some to) val data"

text \<open>
  \<open>types.NewTransaction\<close> of go-ethereum, which \<open>NewEmptyTxAttempt\<close> calls: a legacy
  transaction from nonce, destination, amount, gas limit, gas price and data.
\<close>

definition NewTransaction ::
  "uint64 \<Rightarrow> Address \<Rightarrow> int option \<Rightarrow> uint64 \<Rightarrow> int option \<Rightarrow> bytes \<Rightarrow> Transaction" where
  "NewTransaction nonce to amount gasLimit gasPrice data =
     LegacyTx nonce (Some to) amount gasLimit gasPrice data"

text \<open>\<open>newSignedAttempt\<close>.\<close>

definition newSignedAttempt ::
  "evmTxAttemptBuilder \<Rightarrow> Tx \<Rightarrow> Transaction \<Rightarrow> call list \<times> TxAttempt \<times> error option" where
  "newSignedAttempt c etx tx =
     (let attempt = TxAttempt_zero;
          (calls, hash, signedTxBytes, err) = SignTx c (FromAddress etx) tx
      in case err of
           Some e \<Rightarrow> (calls, attempt, Some (Wrapf_sign_transaction e (FromAddress etx) (ID etx)))
         | None \<Rightarrow>
             (calls,
              attempt\<lparr>State := TxAttemptInProgress, SignedRawTx := signedTxBytes,
                TxID := ID etx, Tx := etx, Hash := hash\<rparr>,
              None))"

subsection \<open>The two construction paths\<close>

text \<open>
  \<open>newLegacyAttempt\<close>. \<open>*etx.Sequence\<close> is read after the validation and panics on a
  nil sequence; \<open>uint64\<close> of the \<open>int64\<close> nonce keeps its bits.
\<close>

definition newLegacyAttempt ::
  "evmTxAttemptBuilder \<Rightarrow> Tx \<Rightarrow> Wei option \<Rightarrow> uint32
     \<Rightarrow> call list \<times> (TxAttempt \<times> error option) outcome" where
  "newLegacyAttempt c etx gasPrice gasLimit =
     (let attempt = TxAttempt_zero in
      case validateLegacyGas (PriceMaxKey (feeConfig c)) (PriceMin (feeConfig c))
             gasPrice gasLimit etx of
        Panic msg \<Rightarrow> ([], Panic msg)
      | Return (Some err) \<Rightarrow> ([], Return (attempt, Some (Wrap err ''error validating gas'')))
      | Return None \<Rightarrow>
          (case Sequence etx of
             None \<Rightarrow> ([], Panic ''nil pointer dereference'')
           | Some nonce \<Rightarrow>
               (let tx = newLegacyTransaction nonce (ToAddress etx) (Some (Value etx))
                           gasLimit gasPrice (EncodedPayload etx);
                    (calls, hash, signedTxBytes, err) = SignTx c (FromAddress etx) tx
                in case err of
                     Some e \<Rightarrow>
                       (calls,
                        Return (attempt,
                          Some (Wrapf_sign_transaction e (FromAddress etx) (ID etx))))
                   | None \<Rightarrow>
                       (calls,
                        Return
                          (attempt\<lparr>State := TxAttemptInProgress,
                             SignedRawTx := signedTxBytes,
                             TxID := ID etx,
                             TxFee := \<lparr>Legacy = gasPrice, DynamicFeeCap = None,
                                        DynamicTipCap = None\<rparr>,
                             Hash := hash,
                             TxType := 0,
                             ChainSpecificFeeLimit := gasLimit,
                             Tx := etx\<rparr>,
                           None)))))"

text \<open>\<open>newDynamicFeeAttempt\<close>.\<close>

definition newDynamicFeeAttempt ::
  "evmTxAttemptBuilder \<Rightarrow> Tx \<Rightarrow> DynamicFee \<Rightarrow> uint32
     \<Rightarrow> call list \<times> (TxAttempt \<times> error option) outcome" where
  "newDynamicFeeAttempt c etx fee gasLimit =
     (case validateDynamicFeeGas (PriceMaxKey (feeConfig c)) (TipCapMin (feeConfig c))
             fee gasLimit etx of
        Panic msg \<Rightarrow> ([], Panic msg)
      | Return (Some err) \<Rightarrow>
          ([], Return (TxAttempt_zero, Some (Wrap err ''error validating gas'')))
      | Return None \<Rightarrow>
          (case Sequence etx of
             None \<Rightarrow> ([], Panic ''nil pointer dereference'')
           | Some nonce \<Rightarrow>
               (let d = newDynamicFeeTransaction nonce (ToAddress etx) (Some (Value etx))
                          gasLimit (Some (chainID c)) (TipCap fee) (FeeCap fee)
                          (EncodedPayload etx);
                    (calls, attempt, err) = newSignedAttempt c etx d
                in case err of
                     Some e \<Rightarrow> (calls, Return (attempt, Some e))
                   | None \<Rightarrow>
                       (calls,
                        Return
                          (attempt\<lparr>TxFee := \<lparr>Legacy = None, DynamicFeeCap = FeeCap fee,
                                               DynamicTipCap = TipCap fee\<rparr>,
                             ChainSpecificFeeLimit := gasLimit,
                             TxType := 2\<rparr>,
                           None)))))"

subsection \<open>The creation operations\<close>

text \<open>
  Modelled from the spec: the method \<open>ValidDynamic\<close> of \<open>gas.EvmFee\<close> is not among the
  sources. The spec's dynamic quote is a pair of a fee cap and a tip cap, so a quote is a
  valid dynamic quote when both are present.
\<close>

definition ValidDynamic :: "EvmFee \<Rightarrow> bool" where
  "ValidDynamic fee = (DynamicFeeCap fee \<noteq> None \<and> DynamicTipCap fee \<noteq> None)"

text \<open>
  \<open>NewCustomTxAttempt\<close>. The result is the attempt, the retryable flag and the error.
  The messages of the three assumption violations are formatted from the fields of the
  named result \<open>attempt\<close>, which is still the zero value there.
\<close>

definition NewCustomTxAttempt ::
  "evmTxAttemptBuilder \<Rightarrow> Tx \<Rightarrow> EvmFee \<Rightarrow> uint32 \<Rightarrow> int
     \<Rightarrow> call list \<times> (TxAttempt \<times> bool \<times> error option) outcome" where
  "NewCustomTxAttempt c etx fee gasLimit txType =
     (let attempt = TxAttempt_zero in
      if txType = 0 then
        (if Legacy fee = None then
           (let err = Type0_without_legacy_fee (AttemptID attempt) in
            ([AssumptionViolation_call err], Return (attempt, False, Some err)))
         else
           (case newLegacyAttempt c etx (Legacy fee) gasLimit of
              (calls, Panic msg) \<Rightarrow> (calls, Panic msg)
            | (calls, Return (attempt', err)) \<Rightarrow> (calls, Return (attempt', True, err))))
      else if txType = 2 then
        (if \<not> ValidDynamic fee then
           (let err = Type2_without_dynamic_fee (AttemptID attempt) in
            ([AssumptionViolation_call err], Return (attempt, False, Some err)))
         else
           (case newDynamicFeeAttempt c etx
                   \<lparr>FeeCap = DynamicFeeCap fee, TipCap = DynamicTipCap fee\<rparr> gasLimit of
              (calls, Panic msg) \<Rightarrow> (calls, Panic msg)
            | (calls, Return (attempt', err)) \<Rightarrow> (calls, Return (attempt', True, err))))
      else
        (let err = Unrecognised_transaction_type (AttemptID attempt) (TxType attempt) in
         ([AssumptionViolation_call err], Return (attempt, False, Some err))))"

text \<open>
  \<open>NewTxAttemptWithType\<close>. The result is the attempt, the fee, the fee limit, the
  retryable flag and the error.
\<close>

definition NewTxAttemptWithType ::
  "evmTxAttemptBuilder \<Rightarrow> Tx \<Rightarrow> int \<Rightarrow> Opt list
     \<Rightarrow> call list \<times> (TxAttempt \<times> EvmFee \<times> uint32 \<times> bool \<times> error option) outcome" where
  "NewTxAttemptWithType c etx txType opts =
     (let attempt = TxAttempt_zero;
          keySpecificMaxGasPriceWei = PriceMaxKey (feeConfig c) (FromAddress etx);
          asked = GetFee_call (EncodedPayload etx) (FeeLimit etx) keySpecificMaxGasPriceWei opts;
          (fee, feeLimit, err) =
             GetFee (estimator c) (EncodedPayload etx) (FeeLimit etx)
               keySpecificMaxGasPriceWei opts
      in case err of
           Some e \<Rightarrow>
             ([asked], Return (attempt, fee, feeLimit, True, Some (Wrap e ''failed to get fee'')))
         | None \<Rightarrow>
             (case NewCustomTxAttempt c etx fee feeLimit txType of
                (calls, Panic msg) \<Rightarrow> (asked # calls, Panic msg)
              | (calls, Return (attempt', retryable, err')) \<Rightarrow>
                  (asked # calls, Return (attempt', fee, feeLimit, retryable, err'))))"

text \<open>\<open>NewTxAttempt\<close>.\<close>

definition NewTxAttempt ::
  "evmTxAttemptBuilder \<Rightarrow> Tx \<Rightarrow> Opt list
     \<Rightarrow> call list \<times> (TxAttempt \<times> EvmFee \<times> uint32 \<times> bool \<times> error option) outcome" where
  "NewTxAttempt c etx opts =
     (let txType = 0;
          txType = (if EIP1559DynamicFees (feeConfig c) then 2 else txType)
      in NewTxAttemptWithType c etx txType opts)"

text \<open>
  \<open>newEvmPriorAttempts\<close>: the loop over the indices of \<open>attempts\<close>, appending one
  converted entry to \<open>prior\<close> in each round.
\<close>

function newEvmPriorAttempts_loop ::
  "TxAttempt list \<Rightarrow> nat \<Rightarrow> EvmPriorAttempt list \<Rightarrow> EvmPriorAttempt list" where
  "newEvmPriorAttempts_loop attempts i prior =
     (if i < length attempts then
        (let priorAttempt =
               \<lparr>PriorChainSpecificFeeLimit = ChainSpecificFeeLimit (attempts ! i),
                PriorBroadcastBeforeBlockNum = BroadcastBeforeBlockNum (attempts ! i),
                TxHash = Hash (attempts ! i),
                PriorTxType = TxType (attempts ! i),
                GasPrice = Legacy (TxFee (attempts ! i)),
                DynamicFee = \<lparr>FeeCap = DynamicFeeCap (TxFee (attempts ! i)),
                               TipCap = DynamicTipCap (TxFee (attempts ! i))\<rparr>\<rparr>
         in newEvmPriorAttempts_loop attempts (Suc i) (prior @ [priorAttempt]))
      else prior)"
  by pat_completeness auto
termination
  by (relation "measure (\<lambda>(attempts, i, prior). length attempts - i)") auto

declare newEvmPriorAttempts_loop.simps [simp del]

definition newEvmPriorAttempts :: "TxAttempt list \<Rightarrow> EvmPriorAttempt list" where
  "newEvmPriorAttempts attempts = newEvmPriorAttempts_loop attempts 0 []"

text \<open>\<open>NewBumpTxAttempt\<close>.\<close>

definition NewBumpTxAttempt ::
  "evmTxAttemptBuilder \<Rightarrow> Tx \<Rightarrow> TxAttempt \<Rightarrow> TxAttempt list
     \<Rightarrow> call list \<times> (TxAttempt \<times> EvmFee \<times> uint32 \<times> bool \<times> error option) outcome" where
  "NewBumpTxAttempt c etx previousAttempt priorAttempts =
     (let attempt = TxAttempt_zero;
          keySpecificMaxGasPriceWei = PriceMaxKey (feeConfig c) (FromAddress etx);
          prior = newEvmPriorAttempts priorAttempts;
          asked = BumpFee_call (TxFee previousAttempt) (FeeLimit etx)
                    keySpecificMaxGasPriceWei prior;
          (bumpedFee, bumpedFeeLimit, err) =
             BumpFee (estimator c) (TxFee previousAttempt) (FeeLimit etx)
               keySpecificMaxGasPriceWei prior
      in case err of
           Some e \<Rightarrow>
             ([asked],
              Return (attempt, bumpedFee, bumpedFeeLimit, True, Some (Wrap e ''failed to bump fee'')))
         | None \<Rightarrow>
             (case NewCustomTxAttempt c etx bumpedFee bumpedFeeLimit (TxType previousAttempt) of
                (calls, Panic msg) \<Rightarrow> (asked # calls, Panic msg)
              | (calls, Return (attempt', retryable, err')) \<Rightarrow>
                  (asked # calls,
                   Return (attempt', bumpedFee, bumpedFeeLimit, retryable, err'))))"

text \<open>
  \<open>NewEmptyTxAttempt\<close>. The transaction it signs has the source address as its
  destination, the value 0 and an empty payload.
\<close>

definition NewEmptyTxAttempt ::
  "evmTxAttemptBuilder \<Rightarrow> int64 \<Rightarrow> uint32 \<Rightarrow> EvmFee \<Rightarrow> Address
     \<Rightarrow> call list \<times> TxAttempt \<times> error option" where
  "NewEmptyTxAttempt c nonce feeLimit fee fromAddress =
     (let attempt = TxAttempt_zero;
          val = Some 0;
          payload = []
      in if Legacy fee = None then ([], attempt, Some Legacy_fee_cannot_be_nil)
         else
           (let tx = NewTransaction nonce fromAddress val (ucast feeLimit) (Legacy fee) payload;
                (calls, hash, signedTxBytes, err) = SignTx c fromAddress tx
            in case err of
                 Some e \<Rightarrow> (calls, attempt, Some (Wrapf_sign_empty_transaction e fromAddress))
               | None \<Rightarrow>
                   (calls, attempt\<lparr>SignedRawTx := signedTxBytes, Hash := hash\<rparr>, None)))"

subsection \<open>Concrete inputs\<close>

text \<open>
  The intent of the spec's end-to-end example (sequence 5, destination \<open>0xAA\<close>, value 0,
  fee limit 21000), a key store that holds the key of address \<open>0x11\<close> only, an estimator
  that quotes a legacy price of 100, one that quotes the dynamic pair (100, 10), one that
  fails, and a builder over them with floors of 1.
\<close>

definition example_etx :: Tx where
  "example_etx = \<lparr>ID = 7, Sequence = Some 5, FromAddress = 0x11, ToAddress = 0xAA, Value = 0,
     EncodedPayload = [], FeeLimit = 21000\<rparr>"

definition example_keystore :: "Address \<Rightarrow> Transaction \<Rightarrow> int \<Rightarrow> error + SignedTransaction" where
  "example_keystore address tx chain =
     (if address = 0x11 then Inr \<lparr>EncodeRLP = Inr [0xC0, 0x01], SignedHash = 0xBEEF\<rparr>
      else Inl (External ''no key for address''))"

definition legacy_estimator :: EvmFeeEstimator where
  "legacy_estimator =
     \<lparr>GetFee = (\<lambda>calldata feeLimit maxFeePrice opts.
         (\<lparr>Legacy = Some 100, DynamicFeeCap = None, DynamicTipCap = None\<rparr>, feeLimit, None)),
      BumpFee = (\<lambda>originalFee feeLimit maxFeePrice attempts.
         (\<lparr>Legacy = Some 120, DynamicFeeCap = None, DynamicTipCap = None\<rparr>, feeLimit, None))\<rparr>"

definition dynamic_estimator :: EvmFeeEstimator where
  "dynamic_estimator =
     \<lparr>GetFee = (\<lambda>calldata feeLimit maxFeePrice opts.
         (\<lparr>Legacy = None, DynamicFeeCap = Some 100, DynamicTipCap = Some 10\<rparr>, feeLimit, None)),
      BumpFee = (\<lambda>originalFee feeLimit maxFeePrice attempts.
         (\<lparr>Legacy = None, DynamicFeeCap = Some 120, DynamicTipCap = Some 12\<rparr>, feeLimit, None))\<rparr>"

definition failing_estimator :: EvmFeeEstimator where
  "failing_estimator =
     \<lparr>GetFee = (\<lambda>calldata feeLimit maxFeePrice opts.
         (EvmFee_zero, 0, Some (External ''estimator unavailable''))),
      BumpFee = (\<lambda>originalFee feeLimit maxFeePrice attempts.
         (EvmFee_zero, 0, Some (External ''estimator unavailable'')))\<rparr>"

definition example_builder :: "Wei \<Rightarrow> bool \<Rightarrow> EvmFeeEstimator \<Rightarrow> evmTxAttemptBuilder" where
  "example_builder ceiling dynamicFees est =
     \<lparr>chainID = 1,
      feeConfig = \<lparr>EIP1559DynamicFees = dynamicFees, TipCapMin = 1, PriceMin = 1,
                    PriceMaxKey = (\<lambda>address. ceiling)\<rparr>,
      keystore = example_keystore,
      estimator = est\<rparr>"

definition example_attempt :: "Wei \<Rightarrow> TxAttempt" where
  "example_attempt price =
     TxAttempt_zero\<lparr>AttemptID := 3, TxID := 7, Tx := example_etx,
       TxFee := \<lparr>Legacy = Some price, DynamicFeeCap = None, DynamicTipCap = None\<rparr>,
       ChainSpecificFeeLimit := 21000, SignedRawTx := [0xC0, 0x01], Hash := 0xBEEF,
       State := TxAttemptInProgress, TxType := 0\<rparr>"

section \<open>Auxiliary facts\<close>

text \<open>
  The loop of \<open>newEvmPriorAttempts\<close> appends the converted entries of the attempts
  from index \<open>i\<close> on; \<open>SignTx\<close> calls the key store once and succeeds exactly when
  signing and encoding do; a signed attempt is the zero attempt with five fields set.
\<close>

lemma newEvmPriorAttempts_loop_map:
  "newEvmPriorAttempts_loop attempts i prior =
     prior @ map (\<lambda>a. \<lparr>PriorChainSpecificFeeLimit = ChainSpecificFeeLimit a,
                        PriorBroadcastBeforeBlockNum = BroadcastBeforeBlockNum a,
                        TxHash = Hash a,
                        PriorTxType = TxType a,
                        GasPrice = Legacy (TxFee a),
                        DynamicFee = \<lparr>FeeCap = DynamicFeeCap (TxFee a),
                                       TipCap = DynamicTipCap (TxFee a)\<rparr>\<rparr>)
                (drop i attempts)"
proof (induction attempts i prior rule: newEvmPriorAttempts_loop.induct)
  case (1 attempts i prior)
  show ?case
  proof (cases "i < length attempts")
    case True
    then have d: "drop i attempts = attempts ! i # drop (Suc i) attempts"
      by (simp add: Cons_nth_drop_Suc)
    show ?thesis
      using True 1 [OF True refl]
      by (subst newEvmPriorAttempts_loop.simps) (simp add: d Let_def)
  next
    case False
    then show ?thesis
      by (subst newEvmPriorAttempts_loop.simps) simp
  qed
qed

lemma newEvmPriorAttempts_map:
  "newEvmPriorAttempts attempts =
     map (\<lambda>a. \<lparr>PriorChainSpecificFeeLimit = ChainSpecificFeeLimit a,
                PriorBroadcastBeforeBlockNum = BroadcastBeforeBlockNum a,
                TxHash = Hash a,
                PriorTxType = TxType a,
                GasPrice = Legacy (TxFee a),
                DynamicFee = \<lparr>FeeCap = DynamicFeeCap (TxFee a),
                               TipCap = DynamicTipCap (TxFee a)\<rparr>\<rparr>) attempts"
  by (simp add: newEvmPriorAttempts_def newEvmPriorAttempts_loop_map)

lemma SignTx_ok:
  "SignTx c address tx = (calls, hash, raw, None) \<longleftrightarrow>
     calls = [SignTx_call address tx (chainID c)]
     \<and> (\<exists>signedTx. keystore c address tx (chainID c) = Inr signedTx
           \<and> EncodeRLP signedTx = Inr raw \<and> SignedHash signedTx = hash)"
  by (auto simp: SignTx_def Let_def split: sum.splits)

lemma newSignedAttempt_ok:
  "newSignedAttempt c etx tx = (calls, a, None) \<Longrightarrow>
     \<exists>hash raw. a = TxAttempt_zero\<lparr>State := TxAttemptInProgress, SignedRawTx := raw,
                       TxID := ID etx, Tx := etx, Hash := hash\<rparr>"
  by (auto simp: newSignedAttempt_def Let_def split: prod.splits option.splits)

section \<open>Properties of the validation rules\<close>

text \<open>
  C2. For every legacy gas price \<open>p\<close>, ceiling of the source address and floor,
  \<open>validateLegacyGas\<close> returns no error exactly when \<open>priceMin \<le> p \<le> ceiling\<close>. A price
  above the ceiling gives the error that carries the price and the ceiling; a price
  within the ceiling and below the floor gives the error that carries the price and the
  floor. It never panics on a price that is present.
\<close>

theorem validateLegacyGas_bounds:
  "(validateLegacyGas kse priceMin (Some p) gasLimit etx = Return None
      \<longleftrightarrow> priceMin \<le> p \<and> p \<le> kse (FromAddress etx))
   \<and> (kse (FromAddress etx) < p \<longrightarrow>
        validateLegacyGas kse priceMin (Some p) gasLimit etx
          = Return (Some (Gas_price_exceeds_max p (kse (FromAddress etx)) (FromAddress etx))))
   \<and> (p \<le> kse (FromAddress etx) \<and> p < priceMin \<longrightarrow>
        validateLegacyGas kse priceMin (Some p) gasLimit etx
          = Return (Some (Gas_price_below_min p priceMin (FromAddress etx))))"
  by (simp add: validateLegacyGas_def Let_def)

theorem validateLegacyGas_bounds_witness:
  "validateLegacyGas (\<lambda>a. 1000) 1 (Some 100) 21000 example_etx = Return None
   \<and> validateLegacyGas (\<lambda>a. 50) 1 (Some 100) 21000 example_etx
       = Return (Some (Gas_price_exceeds_max 100 50 0x11))
   \<and> validateLegacyGas (\<lambda>a. 1000) 200 (Some 100) 21000 example_etx
       = Return (Some (Gas_price_below_min 100 200 0x11))"
  using validateLegacyGas_bounds [of "\<lambda>a. 1000" 1 100 21000 example_etx]
    validateLegacyGas_bounds [of "\<lambda>a. 50" 1 100 21000 example_etx]
    validateLegacyGas_bounds [of "\<lambda>a. 1000" 200 100 21000 example_etx]
  by (simp add: example_etx_def)

text \<open>
  C3. For every dynamic quote with both caps present: when the fee cap is below the tip
  cap, \<open>validateDynamicFeeGas\<close> returns an error (one of the two size errors when a cap
  is above \<open>Max256BitUInt\<close>, else the ordering error with both caps). A quote whose fee
  cap equals its tip cap never gets the ordering error, and is accepted exactly when the
  size check, the ceiling of the source address and the tip floor hold.
\<close>

theorem validateDynamicFeeGas_ordering:
  "(feeCap < tipCap \<longrightarrow>
      validateDynamicFeeGas kse tipCapMin \<lparr>FeeCap = Some feeCap, TipCap = Some tipCap\<rparr> gasLimit etx
        = Return (Some (if feeCap > Max256BitUInt then Impossibly_large_fee_cap
                        else if tipCap > Max256BitUInt then Impossibly_large_tip_cap
                        else Fee_cap_below_tip_cap feeCap tipCap)))
   \<and> (validateDynamicFeeGas kse tipCapMin \<lparr>FeeCap = Some v, TipCap = Some v\<rparr> gasLimit etx
          = Return None
        \<longleftrightarrow> v \<le> Max256BitUInt \<and> v \<le> kse (FromAddress etx) \<and> tipCapMin \<le> v)
   \<and> validateDynamicFeeGas kse tipCapMin \<lparr>FeeCap = Some v, TipCap = Some v\<rparr> gasLimit etx
        \<noteq> Return (Some (Fee_cap_below_tip_cap a b))"
  by (simp add: validateDynamicFeeGas_def Let_def)

theorem validateDynamicFeeGas_ordering_witness:
  "validateDynamicFeeGas (\<lambda>a. 1000) 1 \<lparr>FeeCap = Some 5, TipCap = Some 10\<rparr> 21000 example_etx
     = Return (Some (Fee_cap_below_tip_cap 5 10))
   \<and> validateDynamicFeeGas (\<lambda>a. 1000) 1 \<lparr>FeeCap = Some 10, TipCap = Some 10\<rparr> 21000 example_etx
     = Return None"
  using validateDynamicFeeGas_ordering [of 5 10 "\<lambda>a. 1000" 1 21000 example_etx 10]
  by (simp add: Max256BitUInt_def)

text \<open>
  C4. The claim is that a cap above \<open>2^256 - 1\<close> is rejected. \<open>Max256BitUInt\<close> is
  \<open>2^256\<close> and the size checks reject only a cap strictly above it, so the caps
  \<open>2^256\<close>, which do not fit 256 bits, pass every check when the ceiling of the source
  address is \<open>2^256\<close>.
\<close>

theorem validateDynamicFeeGas_accepts_2_pow_256:
  "validateDynamicFeeGas (\<lambda>a. 2 ^ 256) 1 \<lparr>FeeCap = Some (2 ^ 256), TipCap = Some (2 ^ 256)\<rparr>
      gasLimit etx = Return None
   \<and> (2 ^ 256 - 1 :: int) < 2 ^ 256"
  by (simp add: validateDynamicFeeGas_def Max256BitUInt_def)

section \<open>Properties of the creation operations\<close>

text \<open>
  C1, as the code has it. When the validation inside the legacy path (type 0) or the
  dynamic path (type 2) returns an error, \<open>NewCustomTxAttempt\<close> returns that error
  wrapped as "error validating gas" with the retryable flag \<open>True\<close>, the zero attempt,
  and no call of the key store.
\<close>

theorem NewCustomTxAttempt_validation_failure:
  "(validateLegacyGas (PriceMaxKey (feeConfig c)) (PriceMin (feeConfig c))
        (Legacy fee) gasLimit etx = Return (Some err) \<longrightarrow>
      NewCustomTxAttempt c etx fee gasLimit 0
        = ([], Return (TxAttempt_zero, True, Some (Wrap err ''error validating gas''))))
   \<and> (validateDynamicFeeGas (PriceMaxKey (feeConfig c)) (TipCapMin (feeConfig c))
          \<lparr>FeeCap = DynamicFeeCap fee, TipCap = DynamicTipCap fee\<rparr> gasLimit etx
          = Return (Some err) \<longrightarrow>
        NewCustomTxAttempt c etx fee gasLimit 2
          = ([], Return (TxAttempt_zero, True, Some (Wrap err ''error validating gas''))))"
proof (intro conjI impI)
  assume v: "validateLegacyGas (PriceMaxKey (feeConfig c)) (PriceMin (feeConfig c))
        (Legacy fee) gasLimit etx = Return (Some err)"
  then have "Legacy fee \<noteq> None"
    by (auto simp: validateLegacyGas_def split: option.splits)
  with v show "NewCustomTxAttempt c etx fee gasLimit 0
        = ([], Return (TxAttempt_zero, True, Some (Wrap err ''error validating gas'')))"
    by (simp add: NewCustomTxAttempt_def newLegacyAttempt_def Let_def)
next
  assume v: "validateDynamicFeeGas (PriceMaxKey (feeConfig c)) (TipCapMin (feeConfig c))
          \<lparr>FeeCap = DynamicFeeCap fee, TipCap = DynamicTipCap fee\<rparr> gasLimit etx
          = Return (Some err)"
  then have "ValidDynamic fee"
    by (auto simp: validateDynamicFeeGas_def ValidDynamic_def split: option.splits)
  with v show "NewCustomTxAttempt c etx fee gasLimit 2
          = ([], Return (TxAttempt_zero, True, Some (Wrap err ''error validating gas'')))"
    by (simp add: NewCustomTxAttempt_def newDynamicFeeAttempt_def Let_def)
qed

theorem NewCustomTxAttempt_validation_failure_witness:
  "NewCustomTxAttempt (example_builder 50 False legacy_estimator) example_etx
       \<lparr>Legacy = Some 100, DynamicFeeCap = None, DynamicTipCap = None\<rparr> 21000 0
     = ([], Return (TxAttempt_zero, True,
          Some (Wrap (Gas_price_exceeds_max 100 50 0x11) ''error validating gas'')))
   \<and> NewCustomTxAttempt (example_builder 50 True dynamic_estimator) example_etx
       \<lparr>Legacy = None, DynamicFeeCap = Some 100, DynamicTipCap = Some 10\<rparr> 21000 2
     = ([], Return (TxAttempt_zero, True,
          Some (Wrap (Fee_cap_exceeds_max 100 50 0x11) ''error validating gas'')))"
  using NewCustomTxAttempt_validation_failure
      [of "example_builder 50 False legacy_estimator"
          "\<lparr>Legacy = Some 100, DynamicFeeCap = None, DynamicTipCap = None\<rparr>"
          21000 example_etx "Gas_price_exceeds_max 100 50 0x11"]
    NewCustomTxAttempt_validation_failure
      [of "example_builder 50 True dynamic_estimator"
          "\<lparr>Legacy = None, DynamicFeeCap = Some 100, DynamicTipCap = Some 10\<rparr>"
          21000 example_etx "Fee_cap_exceeds_max 100 50 0x11"]
  by (simp add: example_builder_def example_etx_def validateLegacyGas_def
        validateDynamicFeeGas_def Max256BitUInt_def)

text \<open>
  C1, as the claim has it, fails: with a ceiling of 50 the legacy price 100 fails the
  validation, and the flag returned with the error is \<open>True\<close>, not \<open>False\<close>.
\<close>

theorem NewCustomTxAttempt_validation_failure_not_fatal:
  "validateLegacyGas (PriceMaxKey (feeConfig (example_builder 50 False legacy_estimator)))
       (PriceMin (feeConfig (example_builder 50 False legacy_estimator)))
       (Some 100) 21000 example_etx
     = Return (Some (Gas_price_exceeds_max 100 50 0x11))
   \<and> NewCustomTxAttempt (example_builder 50 False legacy_estimator) example_etx
       \<lparr>Legacy = Some 100, DynamicFeeCap = None, DynamicTipCap = None\<rparr> 21000 0
     = ([], Return (TxAttempt_zero, True,
          Some (Wrap (Gas_price_exceeds_max 100 50 0x11) ''error validating gas'')))"
  by (simp add: example_builder_def example_etx_def validateLegacyGas_def
        NewCustomTxAttempt_def newLegacyAttempt_def)

text \<open>
  C5. \<open>NewCustomTxAttempt\<close> with type 0 and a quote without legacy price, with type 2
  and a quote that is not a valid dynamic quote, or with a type other than 0 and 2,
  reports an assumption violation and returns the zero attempt, the retryable flag
  \<open>False\<close> and the error; the key store is not called.
\<close>

theorem NewCustomTxAttempt_type_mismatch:
  "(Legacy fee = None \<longrightarrow>
      NewCustomTxAttempt c etx fee gasLimit 0
        = ([AssumptionViolation_call (Type0_without_legacy_fee 0)],
           Return (TxAttempt_zero, False, Some (Type0_without_legacy_fee 0))))
   \<and> (\<not> ValidDynamic fee \<longrightarrow>
        NewCustomTxAttempt c etx fee gasLimit 2
          = ([AssumptionViolation_call (Type2_without_dynamic_fee 0)],
             Return (TxAttempt_zero, False, Some (Type2_without_dynamic_fee 0))))
   \<and> (txType \<noteq> 0 \<and> txType \<noteq> 2 \<longrightarrow>
        NewCustomTxAttempt c etx fee gasLimit txType
          = ([AssumptionViolation_call (Unrecognised_transaction_type 0 0)],
             Return (TxAttempt_zero, False, Some (Unrecognised_transaction_type 0 0))))"
  by (simp add: NewCustomTxAttempt_def Let_def TxAttempt_zero_def)

theorem NewCustomTxAttempt_type_mismatch_witness:
  "NewCustomTxAttempt (example_builder 1000 True dynamic_estimator) example_etx
       \<lparr>Legacy = None, DynamicFeeCap = Some 100, DynamicTipCap = Some 10\<rparr> 21000 0
     = ([AssumptionViolation_call (Type0_without_legacy_fee 0)],
        Return (TxAttempt_zero, False, Some (Type0_without_legacy_fee 0)))
   \<and> NewCustomTxAttempt (example_builder 1000 False legacy_estimator) example_etx
       \<lparr>Legacy = Some 100, DynamicFeeCap = None, DynamicTipCap = None\<rparr> 21000 2
     = ([AssumptionViolation_call (Type2_without_dynamic_fee 0)],
        Return (TxAttempt_zero, False, Some (Type2_without_dynamic_fee 0)))
   \<and> NewCustomTxAttempt (example_builder 1000 False legacy_estimator) example_etx
       \<lparr>Legacy = Some 100, DynamicFeeCap = None, DynamicTipCap = None\<rparr> 21000 1
     = ([AssumptionViolation_call (Unrecognised_transaction_type 0 0)],
        Return (TxAttempt_zero, False, Some (Unrecognised_transaction_type 0 0)))"
  using NewCustomTxAttempt_type_mismatch
      [of "\<lparr>Legacy = None, DynamicFeeCap = Some 100, DynamicTipCap = Some 10\<rparr>"
          "example_builder 1000 True dynamic_estimator" example_etx 21000 1]
    NewCustomTxAttempt_type_mismatch
      [of "\<lparr>Legacy = Some 100, DynamicFeeCap = None, DynamicTipCap = None\<rparr>"
          "example_builder 1000 False legacy_estimator" example_etx 21000 1]
  by (simp add: ValidDynamic_def)

text \<open>
  C6. When the estimator's \<open>GetFee\<close> (in \<open>NewTxAttemptWithType\<close>) or \<open>BumpFee\<close> (in
  \<open>NewBumpTxAttempt\<close>) returns an error, the builder returns that error, wrapped, with the
  retryable flag \<open>True\<close> and the zero attempt; the call of the estimator is the only call
  made, so nothing is signed.
\<close>

theorem estimator_error_is_retryable:
  "(GetFee (estimator c) (EncodedPayload etx) (FeeLimit etx)
        (PriceMaxKey (feeConfig c) (FromAddress etx)) opts = (fee, feeLimit, Some e) \<longrightarrow>
      NewTxAttemptWithType c etx txType opts
        = ([GetFee_call (EncodedPayload etx) (FeeLimit etx)
              (PriceMaxKey (feeConfig c) (FromAddress etx)) opts],
           Return (TxAttempt_zero, fee, feeLimit, True, Some (Wrap e ''failed to get fee''))))
   \<and> (BumpFee (estimator c) (TxFee previousAttempt) (FeeLimit etx)
          (PriceMaxKey (feeConfig c) (FromAddress etx)) (newEvmPriorAttempts priorAttempts)
          = (fee, feeLimit, Some e) \<longrightarrow>
        NewBumpTxAttempt c etx previousAttempt priorAttempts
          = ([BumpFee_call (TxFee previousAttempt) (FeeLimit etx)
                (PriceMaxKey (feeConfig c) (FromAddress etx))
                (newEvmPriorAttempts priorAttempts)],
             Return (TxAttempt_zero, fee, feeLimit, True, Some (Wrap e ''failed to bump fee''))))"
  by (simp add: NewTxAttemptWithType_def NewBumpTxAttempt_def Let_def)

theorem estimator_error_is_retryable_witness:
  "NewTxAttemptWithType (example_builder 1000 False failing_estimator) example_etx 0 []
     = ([GetFee_call [] 21000 1000 []],
        Return (TxAttempt_zero, EvmFee_zero, 0, True,
          Some (Wrap (External ''estimator unavailable'') ''failed to get fee'')))
   \<and> NewBumpTxAttempt (example_builder 1000 False failing_estimator) example_etx
        (example_attempt 100) []
     = ([BumpFee_call \<lparr>Legacy = Some 100, DynamicFeeCap = None, DynamicTipCap = None\<rparr>
           21000 1000 []],
        Return (TxAttempt_zero, EvmFee_zero, 0, True,
          Some (Wrap (External ''estimator unavailable'') ''failed to bump fee'')))"
  using estimator_error_is_retryable
      [of "example_builder 1000 False failing_estimator" example_etx "[]" EvmFee_zero 0
          "External ''estimator unavailable''" 0 "example_attempt 100" "[]"]
  by (simp add: example_builder_def failing_estimator_def example_etx_def
        example_attempt_def newEvmPriorAttempts_map)

text \<open>
  C7. \<open>NewTxAttempt\<close> returns what \<open>NewTxAttemptWithType\<close> returns (result and calls)
  with type 2 when the configuration's \<open>EIP1559DynamicFees\<close> is set and type 0 otherwise.
\<close>

theorem NewTxAttempt_is_NewTxAttemptWithType:
  "NewTxAttempt c etx opts =
     NewTxAttemptWithType c etx (if EIP1559DynamicFees (feeConfig c) then 2 else 0) opts"
  by (simp add: NewTxAttempt_def Let_def)

theorem NewTxAttempt_is_NewTxAttemptWithType_witness:
  "NewTxAttempt (example_builder 1000 False legacy_estimator) example_etx []
     = NewTxAttemptWithType (example_builder 1000 False legacy_estimator) example_etx 0 []
   \<and> NewTxAttempt (example_builder 1000 True dynamic_estimator) example_etx []
     = NewTxAttemptWithType (example_builder 1000 True dynamic_estimator) example_etx 2 []
   \<and> NewTxAttempt (example_builder 1000 False legacy_estimator) example_etx []
     = ([GetFee_call [] 21000 1000 [],
         SignTx_call 0x11 (LegacyTx 5 (Some 0xAA) (Some 0) 21000 (Some 100) []) 1],
        Return (example_attempt 100\<lparr>AttemptID := 0\<rparr>,
                \<lparr>Legacy = Some 100, DynamicFeeCap = None, DynamicTipCap = None\<rparr>,
                21000, True, None))"
  using NewTxAttempt_is_NewTxAttemptWithType
      [of "example_builder 1000 False legacy_estimator" example_etx "[]"]
    NewTxAttempt_is_NewTxAttemptWithType
      [of "example_builder 1000 True dynamic_estimator" example_etx "[]"]
  by (simp add: example_builder_def example_etx_def example_attempt_def legacy_estimator_def
        NewTxAttemptWithType_def NewCustomTxAttempt_def newLegacyAttempt_def
        validateLegacyGas_def newLegacyTransaction_def SignTx_def example_keystore_def
        TxAttempt_zero_def)

text \<open>
  C8. \<open>newEvmPriorAttempts\<close> converts the prior attempts one by one, in order.
  \<open>NewBumpTxAttempt\<close> first calls the estimator's \<open>BumpFee\<close> with the previous attempt's
  fee, the intent's fee limit, the price ceiling of the source address and the converted
  list; when that returns no error, the rest is \<open>NewCustomTxAttempt\<close> on the bumped fee
  and fee limit with the previous attempt's transaction type.
\<close>

theorem NewBumpTxAttempt_calls_BumpFee:
  "newEvmPriorAttempts priorAttempts =
     map (\<lambda>a. \<lparr>PriorChainSpecificFeeLimit = ChainSpecificFeeLimit a,
                PriorBroadcastBeforeBlockNum = BroadcastBeforeBlockNum a,
                TxHash = Hash a,
                PriorTxType = TxType a,
                GasPrice = Legacy (TxFee a),
                DynamicFee = \<lparr>FeeCap = DynamicFeeCap (TxFee a),
                               TipCap = DynamicTipCap (TxFee a)\<rparr>\<rparr>) priorAttempts
   \<and> NewBumpTxAttempt c etx previousAttempt priorAttempts =
       (case BumpFee (estimator c) (TxFee previousAttempt) (FeeLimit etx)
               (PriceMaxKey (feeConfig c) (FromAddress etx))
               (newEvmPriorAttempts priorAttempts) of
          (bumpedFee, bumpedFeeLimit, Some e) \<Rightarrow>
            ([BumpFee_call (TxFee previousAttempt) (FeeLimit etx)
                (PriceMaxKey (feeConfig c) (FromAddress etx))
                (newEvmPriorAttempts priorAttempts)],
             Return (TxAttempt_zero, bumpedFee, bumpedFeeLimit, True,
               Some (Wrap e ''failed to bump fee'')))
        | (bumpedFee, bumpedFeeLimit, None) \<Rightarrow>
            (case NewCustomTxAttempt c etx bumpedFee bumpedFeeLimit (TxType previousAttempt) of
               (calls, Panic msg) \<Rightarrow>
                 (BumpFee_call (TxFee previousAttempt) (FeeLimit etx)
                    (PriceMaxKey (feeConfig c) (FromAddress etx))
                    (newEvmPriorAttempts priorAttempts) # calls,
                  Panic msg)
             | (calls, Return (attempt, retryable, err)) \<Rightarrow>
                 (BumpFee_call (TxFee previousAttempt) (FeeLimit etx)
                    (PriceMaxKey (feeConfig c) (FromAddress etx))
                    (newEvmPriorAttempts priorAttempts) # calls,
                  Return (attempt, bumpedFee, bumpedFeeLimit, retryable, err))))"
proof (rule conjI)
  show "newEvmPriorAttempts priorAttempts =
     map (\<lambda>a. \<lparr>PriorChainSpecificFeeLimit = ChainSpecificFeeLimit a,
                PriorBroadcastBeforeBlockNum = BroadcastBeforeBlockNum a,
                TxHash = Hash a,
                PriorTxType = TxType a,
                GasPrice = Legacy (TxFee a),
                DynamicFee = \<lparr>FeeCap = DynamicFeeCap (TxFee a),
                               TipCap = DynamicTipCap (TxFee a)\<rparr>\<rparr>) priorAttempts"
    by (rule newEvmPriorAttempts_map)
next
  show "NewBumpTxAttempt c etx previousAttempt priorAttempts =
       (case BumpFee (estimator c) (TxFee previousAttempt) (FeeLimit etx)
               (PriceMaxKey (feeConfig c) (FromAddress etx))
               (newEvmPriorAttempts priorAttempts) of
          (bumpedFee, bumpedFeeLimit, Some e) \<Rightarrow>
            ([BumpFee_call (TxFee previousAttempt) (FeeLimit etx)
                (PriceMaxKey (feeConfig c) (FromAddress etx))
                (newEvmPriorAttempts priorAttempts)],
             Return (TxAttempt_zero, bumpedFee, bumpedFeeLimit, True,
               Some (Wrap e ''failed to bump fee'')))
        | (bumpedFee, bumpedFeeLimit, None) \<Rightarrow>
            (case NewCustomTxAttempt c etx bumpedFee bumpedFeeLimit (TxType previousAttempt) of
               (calls, Panic msg) \<Rightarrow>
                 (BumpFee_call (TxFee previousAttempt) (FeeLimit etx)
                    (PriceMaxKey (feeConfig c) (FromAddress etx))
                    (newEvmPriorAttempts priorAttempts) # calls,
                  Panic msg)
             | (calls, Return (attempt, retryable, err)) \<Rightarrow>
                 (BumpFee_call (TxFee previousAttempt) (FeeLimit etx)
                    (PriceMaxKey (feeConfig c) (FromAddress etx))
                    (newEvmPriorAttempts priorAttempts) # calls,
                  Return (attempt, bumpedFee, bumpedFeeLimit, retryable, err))))"
    by (simp add: NewBumpTxAttempt_def Let_def split: prod.splits option.splits outcome.splits)
qed

theorem NewBumpTxAttempt_calls_BumpFee_witness:
  "newEvmPriorAttempts [example_attempt 100, example_attempt 120]
     = [\<lparr>PriorChainSpecificFeeLimit = 21000, PriorBroadcastBeforeBlockNum = None,
         TxHash = 0xBEEF, PriorTxType = 0, GasPrice = Some 100,
         DynamicFee = \<lparr>FeeCap = None, TipCap = None\<rparr>\<rparr>,
        \<lparr>PriorChainSpecificFeeLimit = 21000, PriorBroadcastBeforeBlockNum = None,
         TxHash = 0xBEEF, PriorTxType = 0, GasPrice = Some 120,
         DynamicFee = \<lparr>FeeCap = None, TipCap = None\<rparr>\<rparr>]
   \<and> NewBumpTxAttempt (example_builder 1000 True legacy_estimator) example_etx
        (example_attempt 100) [example_attempt 100]
     = ([BumpFee_call \<lparr>Legacy = Some 100, DynamicFeeCap = None, DynamicTipCap = None\<rparr>
           21000 1000
           [\<lparr>PriorChainSpecificFeeLimit = 21000, PriorBroadcastBeforeBlockNum = None,
             TxHash = 0xBEEF, PriorTxType = 0, GasPrice = Some 100,
             DynamicFee = \<lparr>FeeCap = None, TipCap = None\<rparr>\<rparr>],
         SignTx_call 0x11 (LegacyTx 5 (Some 0xAA) (Some 0) 21000 (Some 120) []) 1],
        Return (example_attempt 120\<lparr>AttemptID := 0\<rparr>,
                \<lparr>Legacy = Some 120, DynamicFeeCap = None, DynamicTipCap = None\<rparr>,
                21000, True, None))"
  using NewBumpTxAttempt_calls_BumpFee
      [of "[example_attempt 100, example_attempt 120]"
          "example_builder 1000 True legacy_estimator" example_etx "example_attempt 100"]
    NewBumpTxAttempt_calls_BumpFee
      [of "[example_attempt 100]"
          "example_builder 1000 True legacy_estimator" example_etx "example_attempt 100"]
  by (simp add: example_builder_def example_etx_def example_attempt_def legacy_estimator_def
        NewCustomTxAttempt_def newLegacyAttempt_def
        validateLegacyGas_def newLegacyTransaction_def SignTx_def example_keystore_def
        TxAttempt_zero_def)

text \<open>
  C9. An attempt returned without error by \<open>newLegacyAttempt\<close> or by
  \<open>newDynamicFeeAttempt\<close> has the state \<open>TxAttemptInProgress\<close>, the quote it was given as
  its fee (the legacy price, or the fee cap and tip cap), the type 0 or 2, and the given
  gas limit as its chain-specific fee limit; and the quote has passed the validation.
\<close>

theorem constructed_attempt_fields:
  "(newLegacyAttempt c etx gasPrice gasLimit = (calls, Return (attempt, None)) \<longrightarrow>
      State attempt = TxAttemptInProgress
      \<and> TxFee attempt = \<lparr>Legacy = gasPrice, DynamicFeeCap = None, DynamicTipCap = None\<rparr>
      \<and> TxType attempt = 0
      \<and> ChainSpecificFeeLimit attempt = gasLimit
      \<and> validateLegacyGas (PriceMaxKey (feeConfig c)) (PriceMin (feeConfig c))
            gasPrice gasLimit etx = Return None)
   \<and> (newDynamicFeeAttempt c etx fee gasLimit = (calls, Return (attempt, None)) \<longrightarrow>
        State attempt = TxAttemptInProgress
        \<and> TxFee attempt
            = \<lparr>Legacy = None, DynamicFeeCap = FeeCap fee, DynamicTipCap = TipCap fee\<rparr>
        \<and> TxType attempt = 2
        \<and> ChainSpecificFeeLimit attempt = gasLimit
        \<and> validateDynamicFeeGas (PriceMaxKey (feeConfig c)) (TipCapMin (feeConfig c))
              fee gasLimit etx = Return None)"
proof (intro conjI impI)
  assume ok: "newLegacyAttempt c etx gasPrice gasLimit = (calls, Return (attempt, None))"
  then show "State attempt = TxAttemptInProgress"
    and "TxFee attempt = \<lparr>Legacy = gasPrice, DynamicFeeCap = None, DynamicTipCap = None\<rparr>"
    and "TxType attempt = 0"
    and "ChainSpecificFeeLimit attempt = gasLimit"
    and "validateLegacyGas (PriceMaxKey (feeConfig c)) (PriceMin (feeConfig c))
            gasPrice gasLimit etx = Return None"
    by (auto simp: newLegacyAttempt_def Let_def
        split: outcome.splits option.splits prod.splits)
next
  assume ok: "newDynamicFeeAttempt c etx fee gasLimit = (calls, Return (attempt, None))"
  then have v: "validateDynamicFeeGas (PriceMaxKey (feeConfig c)) (TipCapMin (feeConfig c))
              fee gasLimit etx = Return None"
    by (auto simp: newDynamicFeeAttempt_def Let_def
        split: outcome.splits option.splits prod.splits)
  from ok v obtain nonce calls' signed where
      s: "newSignedAttempt c etx
            (newDynamicFeeTransaction nonce (ToAddress etx) (Some (Value etx)) gasLimit
               (Some (chainID c)) (TipCap fee) (FeeCap fee) (EncodedPayload etx))
          = (calls', signed, None)"
    and a: "attempt = signed\<lparr>TxFee := \<lparr>Legacy = None, DynamicFeeCap = FeeCap fee,
                                       DynamicTipCap = TipCap fee\<rparr>,
                       ChainSpecificFeeLimit := gasLimit, TxType := 2\<rparr>"
    by (auto simp: newDynamicFeeAttempt_def Let_def split: option.splits prod.splits)
  from newSignedAttempt_ok [OF s] a
  show "State attempt = TxAttemptInProgress"
    and "TxFee attempt
            = \<lparr>Legacy = None, DynamicFeeCap = FeeCap fee, DynamicTipCap = TipCap fee\<rparr>"
    and "TxType attempt = 2"
    and "ChainSpecificFeeLimit attempt = gasLimit"
    by auto
  from v show "validateDynamicFeeGas (PriceMaxKey (feeConfig c)) (TipCapMin (feeConfig c))
              fee gasLimit etx = Return None" .
qed

theorem constructed_attempt_fields_witness:
  "newLegacyAttempt (example_builder 1000 False legacy_estimator) example_etx (Some 100) 21000
     = ([SignTx_call 0x11 (LegacyTx 5 (Some 0xAA) (Some 0) 21000 (Some 100) []) 1],
        Return (example_attempt 100\<lparr>AttemptID := 0\<rparr>, None))
   \<and> State (example_attempt 100\<lparr>AttemptID := 0\<rparr>) = TxAttemptInProgress
   \<and> TxType (example_attempt 100\<lparr>AttemptID := 0\<rparr>) = 0
   \<and> ChainSpecificFeeLimit (example_attempt 100\<lparr>AttemptID := 0\<rparr>) = 21000
   \<and> newDynamicFeeAttempt (example_builder 1000 True dynamic_estimator) example_etx
        \<lparr>FeeCap = Some 100, TipCap = Some 10\<rparr> 21000
     = ([SignTx_call 0x11
           (DynamicFeeTx (Some 1) 5 (Some 10) (Some 100) 21000 (Some 0xAA) (Some 0) []) 1],
        Return (example_attempt 100
                  \<lparr>AttemptID := 0,
                   TxFee := \<lparr>Legacy = None, DynamicFeeCap = Some 100, DynamicTipCap = Some 10\<rparr>,
                   TxType := 2\<rparr>, None))"
proof -
  have l: "newLegacyAttempt (example_builder 1000 False legacy_estimator) example_etx
             (Some 100) 21000
     = ([SignTx_call 0x11 (LegacyTx 5 (Some 0xAA) (Some 0) 21000 (Some 100) []) 1],
        Return (example_attempt 100\<lparr>AttemptID := 0\<rparr>, None))"
    by (simp add: example_builder_def example_etx_def example_attempt_def
        newLegacyAttempt_def validateLegacyGas_def newLegacyTransaction_def SignTx_def
        example_keystore_def TxAttempt_zero_def)
  have d: "newDynamicFeeAttempt (example_builder 1000 True dynamic_estimator) example_etx
        \<lparr>FeeCap = Some 100, TipCap = Some 10\<rparr> 21000
     = ([SignTx_call 0x11
           (DynamicFeeTx (Some 1) 5 (Some 10) (Some 100) 21000 (Some 0xAA) (Some 0) []) 1],
        Return (example_attempt 100
                  \<lparr>AttemptID := 0,
                   TxFee := \<lparr>Legacy = None, DynamicFeeCap = Some 100, DynamicTipCap = Some 10\<rparr>,
                   TxType := 2\<rparr>, None))"
    by (simp add: example_builder_def example_etx_def example_attempt_def
        newDynamicFeeAttempt_def validateDynamicFeeGas_def Max256BitUInt_def
        newDynamicFeeTransaction_def newSignedAttempt_def SignTx_def
        example_keystore_def TxAttempt_zero_def)
  from constructed_attempt_fields
      [of "example_builder 1000 False legacy_estimator" example_etx "Some 100" 21000
          "[SignTx_call 0x11 (LegacyTx 5 (Some 0xAA) (Some 0) 21000 (Some 100) []) 1]"
          "example_attempt 100\<lparr>AttemptID := 0\<rparr>"] l d
  show ?thesis by simp
qed

text \<open>
  C10. An attempt returned without error by \<open>NewEmptyTxAttempt\<close> is the zero attempt
  but for its signed raw transaction and its hash, which are the encoding and the hash of
  what the key store signed: its state is the zero state (not \<open>TxAttemptInProgress\<close>),
  its fee is empty, its type and its chain-specific fee limit are 0.
\<close>

theorem NewEmptyTxAttempt_frame:
  "NewEmptyTxAttempt c nonce feeLimit fee fromAddress = (calls, attempt, None) \<longrightarrow>
     attempt = TxAttempt_zero\<lparr>SignedRawTx := SignedRawTx attempt, Hash := Hash attempt\<rparr>
     \<and> State attempt = TxAttemptState_zero
     \<and> State attempt \<noteq> TxAttemptInProgress
     \<and> TxFee attempt = EvmFee_zero
     \<and> TxType attempt = 0
     \<and> ChainSpecificFeeLimit attempt = 0
     \<and> (\<exists>signedTx.
           keystore c fromAddress
              (LegacyTx nonce (Some fromAddress) (Some 0) (ucast feeLimit) (Legacy fee) [])
              (chainID c) = Inr signedTx
           \<and> EncodeRLP signedTx = Inr (SignedRawTx attempt)
           \<and> SignedHash signedTx = Hash attempt)"
proof
  assume ok: "NewEmptyTxAttempt c nonce feeLimit fee fromAddress = (calls, attempt, None)"
  then obtain hash raw where
      s: "SignTx c fromAddress
            (LegacyTx nonce (Some fromAddress) (Some 0) (ucast feeLimit) (Legacy fee) [])
          = (calls, hash, raw, None)"
    and a: "attempt = TxAttempt_zero\<lparr>SignedRawTx := raw, Hash := hash\<rparr>"
    by (auto simp: NewEmptyTxAttempt_def NewTransaction_def Let_def
        split: if_splits prod.splits option.splits)
  from s [unfolded SignTx_ok] a
  show "attempt = TxAttempt_zero\<lparr>SignedRawTx := SignedRawTx attempt, Hash := Hash attempt\<rparr>
     \<and> State attempt = TxAttemptState_zero
     \<and> State attempt \<noteq> TxAttemptInProgress
     \<and> TxFee attempt = EvmFee_zero
     \<and> TxType attempt = 0
     \<and> ChainSpecificFeeLimit attempt = 0
     \<and> (\<exists>signedTx.
           keystore c fromAddress
              (LegacyTx nonce (Some fromAddress) (Some 0) (ucast feeLimit) (Legacy fee) [])
              (chainID c) = Inr signedTx
           \<and> EncodeRLP signedTx = Inr (SignedRawTx attempt)
           \<and> SignedHash signedTx = Hash attempt)"
    by (auto simp: TxAttempt_zero_def)
qed

theorem NewEmptyTxAttempt_frame_witness:
  "NewEmptyTxAttempt (example_builder 1000 False legacy_estimator) 5 21000
       \<lparr>Legacy = Some 100, DynamicFeeCap = None, DynamicTipCap = None\<rparr> 0x11
     = ([SignTx_call 0x11 (LegacyTx 5 (Some 0x11) (Some 0) 21000 (Some 100) []) 1],
        TxAttempt_zero\<lparr>SignedRawTx := [0xC0, 0x01], Hash := 0xBEEF\<rparr>, None)
   \<and> State (TxAttempt_zero\<lparr>SignedRawTx := [0xC0, 0x01], Hash := 0xBEEF\<rparr>)
       \<noteq> TxAttemptInProgress"
proof -
  have e: "NewEmptyTxAttempt (example_builder 1000 False legacy_estimator) 5 21000
       \<lparr>Legacy = Some 100, DynamicFeeCap = None, DynamicTipCap = None\<rparr> 0x11
     = ([SignTx_call 0x11 (LegacyTx 5 (Some 0x11) (Some 0) 21000 (Some 100) []) 1],
        TxAttempt_zero\<lparr>SignedRawTx := [0xC0, 0x01], Hash := 0xBEEF\<rparr>, None)"
    by (simp add: example_builder_def NewEmptyTxAttempt_def NewTransaction_def SignTx_def
        example_keystore_def)
  from NewEmptyTxAttempt_frame
      [of "example_builder 1000 False legacy_estimator" 5 21000
          "\<lparr>Legacy = Some 100, DynamicFeeCap = None, DynamicTipCap = None\<rparr>" "0x11"
          "[SignTx_call 0x11 (LegacyTx 5 (Some 0x11) (Some 0) 21000 (Some 100) []) 1]"
          "TxAttempt_zero\<lparr>SignedRawTx := [0xC0, 0x01], Hash := 0xBEEF\<rparr>"] e
  show ?thesis by simp
qed

end
